theory Spec2Isabelle
  imports Complex_Main
begin

chapter \<open>The embedding\<close>

section \<open>Values and failures\<close>

text \<open>
  The sources compute with Python and numpy floats. A finite float is modelled as the
  \<^typ>\<open>real\<close> number it stands for. Arithmetic inside a method or a right-hand side is
  written exact. Rounding is written out, by \<open>double\<close> below, in the two places where
  the specification compares computed numbers with each other: the quotient that
  \<open>_integrateROrbit\<close> stores as tangential velocity, and the running sum over a list of
  potentials. Overflow and underflow are outside the model.

  Division differs between the two kinds of float. A Python float divided by the
  Python float \<open>0.0\<close> raises \<open>ZeroDivisionError\<close>; numpy divides by zero without raising,
  and the result is \<open>inf\<close> or \<open>nan\<close>. Arguments that the caller passes (\<open>R\<close>, \<open>z\<close>, the
  entries of \<open>vxvv\<close>) and the results of raw functions are Python floats; the results of
  numpy functions and the entries of arrays are numpy floats. Where HOL's \<open>x / 0 = 0\<close>
  would stand for such a quotient, either the failure or the non-finite value is
  written out, or the statement is made where the divisor is not zero.

  A leading underscore of a source name is written as the prefix \<open>u_\<close>
  (\<open>_amp\<close> is \<open>u_amp\<close>, \<open>_isNonAxi\<close> is \<open>u_isNonAxi\<close>).
\<close>

text \<open>The messages of \<open>PotentialError\<close> that the modelled code raises.\<close>

datatype potential_error =
    PhiNotProvided
      \<comment> \<open>"The (list of) Potential instances is non-axisymmetric, but you did not provide phi"\<close>
  | FunctionNotImplemented string
      \<comment> \<open>"'_Rforce' function not implemented for this potential", with the function named\<close>
  | NonAxiNotImplemented
      \<comment> \<open>"'_phiforce' function not implemented for this non-axisymmetric potential"\<close>

datatype error =
    AttributeError
  | ValueError
  | TypeError
  | IndexError
  | ZeroDivisionError
  | IOError
  | RuntimeError
  | NotImplementedError
  | PotentialError potential_error

text \<open>One call after another: the first failure is the failure of the whole.\<close>

definition and_then :: "error + 'a \<Rightarrow> ('a \<Rightarrow> error + 'b) \<Rightarrow> error + 'b" where
  "and_then r k = (case r of Inl err \<Rightarrow> Inl err | Inr v \<Rightarrow> k v)"

section \<open>Floating-point numbers\<close>

text \<open>
  Rounding to the nearest double: 53 significant bits, ties to the even neighbour.
  For \<open>x\<close> with \<open>2\<^sup>e \<le> |x| < 2\<^sup>e\<^sup>+\<^sup>1\<close> the doubles around \<open>x\<close> are the multiples of \<open>2\<^sup>e\<^sup>-\<^sup>5\<^sup>2\<close>.
\<close>

definition round_half_even :: "real \<Rightarrow> int" where
  "round_half_even y =
     (let n = \<lfloor>y\<rfloor>; d = y - of_int n
      in if d < 1 / 2 then n
         else if 1 / 2 < d then n + 1
         else if even n then n else n + 1)"

definition double :: "real \<Rightarrow> real" where
  "double x =
     (if x = 0 then 0
      else
        (let e = \<lfloor>log 2 \<bar>x\<bar>\<rfloor> - 52
         in of_int (round_half_even (x / 2 powr of_int e)) * 2 powr of_int e))"

text \<open>A float that may not be finite: \<open>NotFinite\<close> is \<open>inf\<close>, \<open>-inf\<close> or \<open>nan\<close>.\<close>

datatype np_float = Finite real | NotFinite

text \<open>
  \<open>a + b\<close> on floats: the rounded sum of two finite numbers; a sum with \<open>inf\<close> or \<open>nan\<close>
  is \<open>inf\<close> or \<open>nan\<close>.
\<close>

fun float_add :: "np_float \<Rightarrow> np_float \<Rightarrow> np_float" where
  "float_add (Finite a) (Finite b) = Finite (double (a + b))"
| "float_add a b = NotFinite"


text \<open>
  \<open>nu.sqrt\<close>: the square root of a number that is not negative, and \<open>nan\<close> (with a
  warning, not an exception) of a negative one.
\<close>

definition np_sqrt :: "real \<Rightarrow> np_float" where
  "np_sqrt x = (if x < 0 then NotFinite else Finite (sqrt x))"



section \<open>planarOrbit.py: diagnostics of an integrated orbit\<close>

text \<open>
  The attributes of a \<open>planarOrbitTop\<close> object (\<open>self.orbit\<close> is \<open>self_orbit\<close>).
  \<open>orbit\<close> and \<open>rs\<close> are created by assignment, and \<open>hasattr\<close> tests whether that has happened: \<open>None\<close> is the absent
  attribute. \<open>orbit\<close> holds one row \<open>[R, vR, vT(, phi)]\<close> per output time.
\<close>

record planarOrbitTop =
  self_vxvv :: "real list"
  self_t :: "real list option"
  self_orbit :: "real list list option"
  self_rs :: "real list option"

text \<open>\<open>nu.amax\<close> and \<open>nu.amin\<close> raise \<open>ValueError\<close> on an array of size zero.\<close>

definition amax :: "real list \<Rightarrow> error + real" where
  "amax xs = (if xs = [] then Inl ValueError else Inr (Max (set xs)))"

definition amin :: "real list \<Rightarrow> error + real" where
  "amin xs = (if xs = [] then Inl ValueError else Inr (Min (set xs)))"

text \<open>\<open>self.orbit[:,0]**2.\<close>: the first column, squared elementwise.\<close>

definition column0_squared :: "real list list \<Rightarrow> real list" where
  "column0_squared orb = map (\<lambda>row. (row ! 0)\<^sup>2) orb"

text \<open>
  \<open>if not hasattr(self,'rs'): self.rs= self.orbit[:,0]**2.\<close> The attribute is set once and
  kept: a method returns its result and the object as it leaves it.
\<close>

definition ensure_rs :: "planarOrbitTop \<Rightarrow> real list list \<Rightarrow> planarOrbitTop" where
  "ensure_rs self orb =
     (case self_rs self of
        None \<Rightarrow> self\<lparr>self_rs := Some (column0_squared orb)\<rparr>
      | Some _ \<Rightarrow> self)"

definition eccentricity_of :: "real list \<Rightarrow> error + real" where
  "eccentricity_of r =
     (case amax r of
        Inl err \<Rightarrow> Inl err
      | Inr hi \<Rightarrow>
          (case amin r of
             Inl err \<Rightarrow> Inl err
           | Inr lo \<Rightarrow> Inr ((hi - lo) / (hi + lo))))"

text \<open>\<open>planarOrbitTop.e\<close>, inherited by \<open>planarROrbit\<close>.\<close>

definition planarOrbitTop_e :: "planarOrbitTop \<Rightarrow> (error + real) \<times> planarOrbitTop" where
  "planarOrbitTop_e self =
     (case self_orbit self of
        None \<Rightarrow> (Inl AttributeError, self)
      | Some orb \<Rightarrow>
          (let self' = ensure_rs self orb
           in (eccentricity_of (the (self_rs self')), self')))"

text \<open>\<open>planarOrbitTop.rap\<close>, inherited by \<open>planarROrbit\<close> and \<open>planarOrbit\<close>.\<close>

definition planarOrbitTop_rap :: "planarOrbitTop \<Rightarrow> (error + real) \<times> planarOrbitTop" where
  "planarOrbitTop_rap self =
     (case self_orbit self of
        None \<Rightarrow> (Inl AttributeError, self)
      | Some orb \<Rightarrow>
          (let self' = ensure_rs self orb
           in (amax (the (self_rs self')), self')))"

text \<open>\<open>planarOrbitTop.rperi\<close>, inherited by \<open>planarROrbit\<close> and \<open>planarOrbit\<close>.\<close>

definition planarOrbitTop_rperi :: "planarOrbitTop \<Rightarrow> (error + real) \<times> planarOrbitTop" where
  "planarOrbitTop_rperi self =
     (case self_orbit self of
        None \<Rightarrow> (Inl AttributeError, self)
      | Some orb \<Rightarrow>
          (let self' = ensure_rs self orb
           in (amin (the (self_rs self')), self')))"

text \<open>\<open>planarOrbit.e\<close> overrides \<open>planarOrbitTop.e\<close>: \<open>rs\<close> is a local, nothing is stored.\<close>

definition planarOrbit_e :: "planarOrbitTop \<Rightarrow> (error + real) \<times> planarOrbitTop" where
  "planarOrbit_e self =
     (case self_orbit self of
        None \<Rightarrow> (Inl AttributeError, self)
      | Some orb \<Rightarrow> (eccentricity_of (column0_squared orb), self))"

text \<open>The radii sampled along a trajectory: the first component of every row.\<close>

definition sampled_radii :: "real list list \<Rightarrow> real list" where
  "sampled_radii orb = map (\<lambda>row. row ! 0) orb"

text \<open>An integrated orbit that was sampled at the radii 2 and 3.\<close>

definition orbit_2_3 :: planarOrbitTop where
  "orbit_2_3 =
     \<lparr>self_vxvv = [2, 0, 1], self_t = Some [0, 1],
      self_orbit = Some [[2, 0, 1], [3, 0, 2 / 3]], self_rs = None\<rparr>"

section \<open>Potential.py: the class Potential\<close>

text \<open>
  A subclass supplies the raw functions \<open>_evaluate\<close>, \<open>_Rforce\<close>, ... as methods; the
  base class calls them and catches the \<open>AttributeError\<close> of a method that is not there.
  A raw function is a field that is \<open>None\<close> when the subclass does not define it. Its
  arguments are \<open>R\<close>, \<open>z\<close>, \<open>phi\<close> and \<open>t\<close>; \<open>phi\<close> is \<open>None\<close> when the caller of a
  module-level function has supplied no azimuth, and is passed on as it is.
  \<open>_evaluate\<close> may return Python's \<open>None\<close>, which \<open>_call_nodecorator\<close> hands back.
\<close>

type_synonym raw_function = "real \<Rightarrow> real \<Rightarrow> real option \<Rightarrow> real \<Rightarrow> real"

record Potential =
  u_amp :: real
  u_ro :: real
  u_vo :: real
  u_roSet :: bool
  u_voSet :: bool
  dim :: nat
  isRZ :: bool
  isNonAxi :: bool
  hasC :: bool
  hasC_dxdv :: bool
  u_evaluate :: "(real \<Rightarrow> real \<Rightarrow> real option \<Rightarrow> real \<Rightarrow> real option) option"
  u_Rforce :: "raw_function option"
  u_zforce :: "raw_function option"
  u_phiforce :: "raw_function option"
  u_R2deriv :: "raw_function option"
  u_z2deriv :: "raw_function option"
  u_Rzderiv :: "raw_function option"
  u_phi2deriv :: "raw_function option"
  u_Rphideriv :: "raw_function option"
  u_dens :: "raw_function option"

text \<open>
  The decorators \<open>potential_physical_input\<close> and \<open>physical_conversion\<close> belong to the
  unit-conversion layer. Every call modelled here is made in internal units
  (\<open>use_physical=False\<close>, or an undecorated \<open>_nodecorator\<close> method), where they pass
  arguments and result through.

  \<open>try: return self._amp*self._Rforce(R,z,phi=phi,t=t)\<close>
  \<open>except AttributeError: raise PotentialError(...)\<close>
\<close>

definition required_raw ::
  "string \<Rightarrow> real \<Rightarrow> raw_function option \<Rightarrow> real \<Rightarrow> real \<Rightarrow> real option \<Rightarrow> real \<Rightarrow> error + real"
where
  "required_raw name a raw R z phi t' =
     (case raw of
        None \<Rightarrow> Inl (PotentialError (FunctionNotImplemented name))
      | Some f \<Rightarrow> Inr (a * f R z phi t'))"

definition Potential_u_Rforce_nodecorator ::
  "Potential \<Rightarrow> real \<Rightarrow> real \<Rightarrow> real option \<Rightarrow> real \<Rightarrow> error + real" where
  "Potential_u_Rforce_nodecorator self R z phi t' =
     required_raw ''_Rforce'' (u_amp self) (u_Rforce self) R z phi t'"

definition Potential_Rforce ::
  "Potential \<Rightarrow> real \<Rightarrow> real \<Rightarrow> real option \<Rightarrow> real \<Rightarrow> error + real" where
  "Potential_Rforce self R z phi t' = Potential_u_Rforce_nodecorator self R z phi t'"


definition Potential_R2deriv ::
  "Potential \<Rightarrow> real \<Rightarrow> real \<Rightarrow> real option \<Rightarrow> real \<Rightarrow> error + real" where
  "Potential_R2deriv self R z phi t' =
     required_raw ''_R2deriv'' (u_amp self) (u_R2deriv self) R z phi t'"



text \<open>
  The azimuthal force and the two derivatives in \<open>phi\<close> share one handler:
  \<open>except AttributeError:\<close>
  \<open>    if self.isNonAxi: raise PotentialError("'_phiforce' function not implemented ...")\<close>
  \<open>    return 0.\<close>
\<close>

definition azimuthal_raw ::
  "Potential \<Rightarrow> raw_function option \<Rightarrow> real \<Rightarrow> real \<Rightarrow> real option \<Rightarrow> real \<Rightarrow> error + real"
where
  "azimuthal_raw self raw R z phi t' =
     (case raw of
        Some f \<Rightarrow> Inr (u_amp self * f R z phi t')
      | None \<Rightarrow>
          (if isNonAxi self then Inl (PotentialError NonAxiNotImplemented) else Inr 0))"

definition Potential_u_phiforce_nodecorator ::
  "Potential \<Rightarrow> real \<Rightarrow> real \<Rightarrow> real option \<Rightarrow> real \<Rightarrow> error + real" where
  "Potential_u_phiforce_nodecorator self R z phi t' =
     azimuthal_raw self (u_phiforce self) R z phi t'"

definition Potential_phiforce ::
  "Potential \<Rightarrow> real \<Rightarrow> real \<Rightarrow> real option \<Rightarrow> real \<Rightarrow> error + real" where
  "Potential_phiforce self R z phi t' = Potential_u_phiforce_nodecorator self R z phi t'"

definition Potential_phi2deriv ::
  "Potential \<Rightarrow> real \<Rightarrow> real \<Rightarrow> real option \<Rightarrow> real \<Rightarrow> error + real" where
  "Potential_phi2deriv self R Z phi t' = azimuthal_raw self (u_phi2deriv self) R Z phi t'"

definition Potential_Rphideriv ::
  "Potential \<Rightarrow> real \<Rightarrow> real \<Rightarrow> real option \<Rightarrow> real \<Rightarrow> error + real" where
  "Potential_Rphideriv self R Z phi t' = azimuthal_raw self (u_Rphideriv self) R Z phi t'"

text \<open>Unary minus on the result of a call that may have raised.\<close>

definition negated :: "error + real \<Rightarrow> error + real option" where
  "negated r = (case r of Inl err \<Rightarrow> Inl err | Inr v \<Rightarrow> Inr (Some (- v)))"

definition returned :: "error + real \<Rightarrow> error + real option" where
  "returned r = (case r of Inl err \<Rightarrow> Inl err | Inr v \<Rightarrow> Inr (Some v))"

text \<open>\<open>Potential._call_nodecorator\<close>; the result \<open>Inr None\<close> is Python's \<open>None\<close>.\<close>

definition Potential_u_call_nodecorator ::
  "Potential \<Rightarrow> real \<Rightarrow> real \<Rightarrow> real option \<Rightarrow> real \<Rightarrow> int \<Rightarrow> int \<Rightarrow> error + real option"
where
  "Potential_u_call_nodecorator self R z phi t' dR dphi =
     (if dR = 0 \<and> dphi = 0 then
        (case u_evaluate self of
           None \<Rightarrow> Inl (PotentialError (FunctionNotImplemented ''_evaluate''))
         | Some f \<Rightarrow>
             (case f R z phi t' of
                None \<Rightarrow> Inr None
              | Some rawOut \<Rightarrow> Inr (Some (u_amp self * rawOut))))
      else if dR = 1 \<and> dphi = 0 then negated (Potential_Rforce self R z phi t')
      else if dR = 0 \<and> dphi = 1 then negated (Potential_phiforce self R z phi t')
      else if dR = 2 \<and> dphi = 0 then returned (Potential_R2deriv self R z phi t')
      else if dR = 0 \<and> dphi = 2 then returned (Potential_phi2deriv self R z phi t')
      else if dR = 1 \<and> dphi = 1 then returned (Potential_Rphideriv self R z phi t')
      else Inl NotImplementedError)"

text \<open>
  \<open>Potential.normalize\<close>:
  \<open>self._amp*= norm/nu.fabs(self.Rforce(1.,0.,t=t,use_physical=False))\<close>.
  \<open>Rforce\<close> is called with its default \<open>phi=0.\<close>; when it raises, nothing has been
  assigned.
\<close>

definition Potential_normalize :: "Potential \<Rightarrow> real \<Rightarrow> real \<Rightarrow> error + Potential" where
  "Potential_normalize self nrm t' =
     (case Potential_Rforce self 1 0 (Some 0) t' of
        Inl err \<Rightarrow> Inl err
      | Inr force \<Rightarrow> Inr (self\<lparr>u_amp := u_amp self * (nrm / \<bar>force\<bar>)\<rparr>))"




section \<open>Potential.py: evaluating a potential or a list of potentials\<close>

text \<open>The \<open>Pot\<close> argument of the module-level functions: an instance, or a list of them.\<close>

datatype pot_arg = Instance Potential | PotList "Potential list"

text \<open>
  \<open>_isNonAxi\<close>: for a list, \<open>not nu.prod(nu.array([not p.isNonAxi for p in Pot]))\<close>, the
  product of the booleans read as numbers, negated.
\<close>

definition u_isNonAxi :: "pot_arg \<Rightarrow> bool" where
  "u_isNonAxi Pot =
     (case Pot of
        PotList ps \<Rightarrow> prod_list (map (\<lambda>p. of_bool (\<not> isNonAxi p)) ps) = (0 :: nat)
      | Instance p \<Rightarrow> isNonAxi p)"

text \<open>
  What a call on a member returns: a failure, Python's \<open>None\<close> (\<open>Inr None\<close>), or a
  float. The methods above return finite numbers.
\<close>

type_synonym evaluation = "error + np_float option"

definition as_float :: "error + real option \<Rightarrow> evaluation" where
  "as_float r =
     (case r of Inl err \<Rightarrow> Inl err | Inr None \<Rightarrow> Inr None | Inr (Some v) \<Rightarrow> Inr (Some (Finite v)))"

text \<open>
  \<open>sum= 0.\<close>, then \<open>for pot in Pot: sum+= pot.method(...)\<close>. Every \<open>+=\<close> is a float
  addition, rounded. The first member that raises ends the loop; adding Python's
  \<open>None\<close> to a float raises \<open>TypeError\<close>.
\<close>

fun sum_members ::
  "(Potential \<Rightarrow> evaluation) \<Rightarrow> np_float \<Rightarrow> Potential list \<Rightarrow> error + np_float" where
  "sum_members meth acc [] = Inr acc"
| "sum_members meth acc (pot # rest) =
     (case meth pot of
        Inl err \<Rightarrow> Inl err
      | Inr None \<Rightarrow> Inl TypeError
      | Inr (Some v) \<Rightarrow> sum_members meth (float_add acc v) rest)"

text \<open>
  The body the evaluation functions share, with the method called on a member as
  parameter: the check of \<open>_isNonAxi\<close> against a missing \<open>phi\<close>, then the sum over a list or
  the call on an instance.
\<close>

definition evaluate_with :: "(Potential \<Rightarrow> evaluation) \<Rightarrow> pot_arg \<Rightarrow> real option \<Rightarrow> evaluation"
where
  "evaluate_with meth Pot phi =
     (if u_isNonAxi Pot \<and> phi = None then Inl (PotentialError PhiNotProvided)
      else
        (case Pot of
           PotList ps \<Rightarrow>
             (case sum_members meth (Finite 0) ps of
                Inl err \<Rightarrow> Inl err
              | Inr acc \<Rightarrow> Inr (Some acc))
         | Instance p \<Rightarrow> meth p))"

text \<open>The undecorated functions, "for internal use".\<close>

definition u_evaluatePotentials ::
  "pot_arg \<Rightarrow> real \<Rightarrow> real \<Rightarrow> real option \<Rightarrow> real \<Rightarrow> int \<Rightarrow> int \<Rightarrow> evaluation" where
  "u_evaluatePotentials Pot R z phi t' dR dphi =
     evaluate_with (\<lambda>pot. as_float (Potential_u_call_nodecorator pot R z phi t' dR dphi)) Pot phi"














definition number_of :: "evaluation \<Rightarrow> np_float" where
  "number_of r = (case r of Inr (Some v) \<Rightarrow> v | _ \<Rightarrow> NotFinite)"

definition is_number :: "evaluation \<Rightarrow> bool" where
  "is_number r = (case r of Inr (Some v) \<Rightarrow> True | _ \<Rightarrow> False)"

definition float_sum :: "np_float list \<Rightarrow> np_float" where
  "float_sum vs = foldl float_add (Finite 0) vs"


subsection \<open>Potentials to evaluate on\<close>

text \<open>
  \<open>Potential.__init__\<close> for an amplitude that is a bare number and for given \<open>ro\<close> and
  \<open>vo\<close>: no raw function is defined by the base class.
\<close>

definition Potential_init :: "real \<Rightarrow> real \<Rightarrow> real \<Rightarrow> Potential" where
  "Potential_init amp ro vo =
     \<lparr>u_amp = amp, u_ro = ro, u_vo = vo, u_roSet = True, u_voSet = True,
      dim = 3, isRZ = True, isNonAxi = False, hasC = False, hasC_dxdv = False,
      u_evaluate = None, u_Rforce = None, u_zforce = None, u_phiforce = None,
      u_R2deriv = None, u_z2deriv = None, u_Rzderiv = None, u_phi2deriv = None,
      u_Rphideriv = None, u_dens = None\<rparr>"

text \<open>
  An axisymmetric subclass, the harmonic potential \<open>(R\<^sup>2 + z\<^sup>2) / 2\<close>, with the raw
  functions of the API and none in \<open>phi\<close>.
\<close>

definition harmonic :: "real \<Rightarrow> Potential" where
  "harmonic amp =
     (Potential_init amp 8 220)
       \<lparr>u_evaluate := Some (\<lambda>R z phi t'. Some ((R\<^sup>2 + z\<^sup>2) / 2)),
        u_Rforce := Some (\<lambda>R z phi t'. - R),
        u_zforce := Some (\<lambda>R z phi t'. - z),
        u_R2deriv := Some (\<lambda>R z phi t'. 1),
        u_z2deriv := Some (\<lambda>R z phi t'. 1),
        u_Rzderiv := Some (\<lambda>R z phi t'. 0)\<rparr>"

text \<open>
  A non-axisymmetric subclass, \<open>R\<^sup>2 cos (2 phi) / 2\<close>: it sets \<open>isNonAxi\<close> and defines
  \<open>_evaluate\<close> and \<open>_Rforce\<close>, but none of \<open>_phiforce\<close>, \<open>_phi2deriv\<close>, \<open>_Rphideriv\<close>.
\<close>

definition quadrupole :: "real \<Rightarrow> Potential" where
  "quadrupole amp =
     (Potential_init amp 8 220)
       \<lparr>isNonAxi := True,
        u_evaluate := Some (\<lambda>R z phi t'. Some (R\<^sup>2 * cos (2 * the phi) / 2)),
        u_Rforce := Some (\<lambda>R z phi t'. - R * cos (2 * the phi))\<rparr>"

section \<open>planarOrbit.py: equations of motion and integration\<close>

text \<open>
  \<open>scipy.integrate.odeint\<close> is the ODE primitive. It is a parameter: from the
  right-hand side \<open>func(y, t)\<close>, the initial state and the output times it returns one
  state per output time. The extra arguments (\<open>args=(pot,l2)\<close>) are bound in the
  right-hand side that is handed over; the tolerance \<open>rtol\<close> is the primitive's affair.

  \<open>evaluateplanarRforces\<close> and \<open>evaluateplanarphiforces\<close> are defined in
  \<open>planarPotential.py\<close>, which is not among these sources. They are parameters, called
  as \<open>force R pot phi t\<close>, with \<open>phi = None\<close> where the source passes no \<open>phi\<close>.
\<close>

type_synonym ode_primitive =
  "(real list \<Rightarrow> real \<Rightarrow> real list) \<Rightarrow> real list \<Rightarrow> real list \<Rightarrow> real list list"

type_synonym 'p planar_force = "real \<Rightarrow> 'p \<Rightarrow> real option \<Rightarrow> real \<Rightarrow> real"



text \<open>\<open>_EOM(y,t,pot)\<close>\<close>

definition u_EOM ::
  "'p planar_force \<Rightarrow> 'p planar_force \<Rightarrow> real list \<Rightarrow> real \<Rightarrow> 'p \<Rightarrow> real list" where
  "u_EOM evaluateplanarRforces evaluateplanarphiforces y t' pot =
     (let l2 = ((y ! 0)\<^sup>2 * y ! 3)\<^sup>2
      in [y ! 1,
          l2 / (y ! 0) ^ 3 + evaluateplanarRforces (y ! 0) pot (Some (y ! 2)) t',
          y ! 3,
          1 / (y ! 0)\<^sup>2
            * (evaluateplanarphiforces (y ! 0) pot (Some (y ! 2)) t' - 2 * y ! 0 * y ! 1 * y ! 3)])"

text \<open>
  \<open>_integrateOrbit(vxvv,pot,t)\<close>. The first statement is \<open>vphi= vxvv[2]/vxvv[0]\<close>, a
  quotient of Python floats: it raises \<open>IndexError\<close> for a list of fewer than three
  entries and \<open>ZeroDivisionError\<close> when \<open>vxvv[0]\<close> is zero. The next statement reads
  \<open>vxvv[3]\<close>, which needs four entries.
\<close>

definition u_integrateOrbit ::
  "ode_primitive \<Rightarrow> 'p planar_force \<Rightarrow> 'p planar_force \<Rightarrow> real list \<Rightarrow> 'p \<Rightarrow> real list
     \<Rightarrow> error + real list list"
where
  "u_integrateOrbit odeint evaluateplanarRforces evaluateplanarphiforces vxvv pot ts =
     (if length vxvv < 3 then Inl IndexError
      else if vxvv ! 0 = 0 then Inl ZeroDivisionError
      else if length vxvv < 4 then Inl IndexError
      else
        (let vphi = vxvv ! 2 / vxvv ! 0;
             init = [vxvv ! 0, vxvv ! 1, vxvv ! 3, vphi];
             intOut = odeint
               (\<lambda>y t'. u_EOM evaluateplanarRforces evaluateplanarphiforces y t' pot) init ts
         in Inr (map (\<lambda>i. [intOut ! i ! 0, intOut ! i ! 1,
                            intOut ! i ! 0 * intOut ! i ! 3, intOut ! i ! 2])
                  [0..<length ts])))"

text \<open>\<open>planarROrbit.__init__\<close> and \<open>planarOrbit.__init__\<close>\<close>

definition planarROrbit_init :: "real list \<Rightarrow> planarOrbitTop" where
  "planarROrbit_init v = \<lparr>self_vxvv = v, self_t = None, self_orbit = None, self_rs = None\<rparr>"

definition planarOrbit_init :: "real list \<Rightarrow> error + planarOrbitTop" where
  "planarOrbit_init v =
     (if length v = 3 then Inl ValueError
      else Inr \<lparr>self_vxvv = v, self_t = None, self_orbit = None, self_rs = None\<rparr>)"

subsection \<open>An ODE primitive to integrate with\<close>

text \<open>
  The explicit Euler method with one step per output interval has the interface of the
  primitive and, like \<open>odeint\<close>, returns the initial state as its first row. It stands
  in for the primitive where an orbit is integrated on concrete numbers.
\<close>

fun euler_steps ::
  "(real list \<Rightarrow> real \<Rightarrow> real list) \<Rightarrow> real list \<Rightarrow> real \<Rightarrow> real list \<Rightarrow> real list list" where
  "euler_steps f y t0 [] = []"
| "euler_steps f y t0 (t1 # ts) =
     (let y' = map2 (\<lambda>a b. a + (t1 - t0) * b) y (f y t0)
      in y' # euler_steps f y' t1 ts)"

definition euler_odeint :: ode_primitive where
  "euler_odeint f y0 ts = (case ts of [] \<Rightarrow> [] | t0 # rest \<Rightarrow> y0 # euler_steps f y0 t0 rest)"

text \<open>The planar forces of the harmonic potential, and of one with an azimuthal force.\<close>

definition harmonic_planarRforce :: "unit planar_force" where
  "harmonic_planarRforce R pot phi t' = - R"

definition constant_planarphiforce :: "unit planar_force" where
  "constant_planarphiforce R pot phi t' = 1"

section \<open>SCFPotential.py\<close>

text \<open>
  The attributes \<open>SCFPotential.__init__\<close> adds to those of \<open>Potential\<close>. An array is its
  shape and its entries as a function of the indices; \<open>Acos\<close> and \<open>Asin\<close> have the same
  shape \<open>(N, L, M)\<close> ("Acos and Asin must have the same shape"), and \<open>_NN\<close> is \<open>L \<times> L\<close>.
\<close>

record SCFPotential =
  Acos_shape :: "nat \<times> nat \<times> nat"
  u_Acos :: "nat \<Rightarrow> nat \<Rightarrow> nat \<Rightarrow> real"
  u_Asin :: "nat \<Rightarrow> nat \<Rightarrow> nat \<Rightarrow> real"
  u_a :: real
  u_NN :: "nat \<Rightarrow> nat \<Rightarrow> real"

text \<open>
  \<open>_C(xi, L, N)\<close>: the table of Gegenbauer polynomials, filled column by column by the
  three-term recurrence. \<open>CC\<close> starts as zeros; \<open>CC (n, l)\<close> is \<open>CC[n][l]\<close>.
\<close>

definition C_body :: "real \<Rightarrow> nat \<Rightarrow> nat \<Rightarrow> nat \<Rightarrow> (nat \<times> nat \<Rightarrow> real) \<Rightarrow> (nat \<times> nat \<Rightarrow> real)"
where
  "C_body xi N l n CC =
     (let alpha = 2 * real l + 3 / 2
      in if n = 0 then CC((n, l) := 1)
         else
           (let CC1 = (if n = 1 then CC((n, l) := 2 * alpha * xi) else CC)
            in if n + 1 \<noteq> N
               then CC1((n + 1, l) :=
                      (1 / real (n + 1))
                        * (2 * (real n + alpha) * xi * CC1 (n, l)
                           - (real n + 2 * alpha - 1) * CC1 (n - 1, l)))
               else CC1))"

definition SCFPotential_u_C :: "real \<Rightarrow> nat \<Rightarrow> nat \<Rightarrow> (nat \<times> nat \<Rightarrow> real)" where
  "SCFPotential_u_C xi L N =
     fold (\<lambda>l CC. fold (C_body xi N l) [0..<N] CC) [0..<L] (\<lambda>nl. 0)"

text \<open>\<open>_Nroot(L)\<close>: entries with \<open>m \<le> l < L\<close> are assigned, the others stay zero.\<close>

definition SCFPotential_u_Nroot :: "nat \<Rightarrow> nat \<Rightarrow> nat \<Rightarrow> real" where
  "SCFPotential_u_Nroot L l m =
     (if l < L \<and> m \<le> l
      then sqrt ((2 * real l + 1) / (4 * pi) * fact (l - m) / fact (l + m))
             * (2 - of_bool (m = 0))
      else 0)"

definition SCFPotential_u_calculateXi :: "SCFPotential \<Rightarrow> real \<Rightarrow> real" where
  "SCFPotential_u_calculateXi self r = (r - u_a self) / (r + u_a self)"

text \<open>\<open>_rhoTilde\<close> and \<open>_phiTilde\<close>: tables indexed \<open>[n][l]\<close>.\<close>

definition SCFPotential_u_rhoTilde ::
  "SCFPotential \<Rightarrow> real \<Rightarrow> (nat \<times> nat \<Rightarrow> real) \<Rightarrow> nat \<Rightarrow> nat \<Rightarrow> (nat \<Rightarrow> nat \<Rightarrow> real)" where
  "SCFPotential_u_rhoTilde self r CC N L =
     (\<lambda>n l. if n < N \<and> l < L
            then (let K = 0.5 * real n * (real n + 4 * real l + 3)
                            + (real l + 1) * (2 * real l + 1)
                  in K / (2 * pi) * (u_a self * r) ^ l
                       / ((r / u_a self) * (u_a self + r) ^ (2 * l + 3))
                       * CC (n, l) * sqrt (4 * pi))
            else 0)"

definition SCFPotential_u_phiTilde ::
  "SCFPotential \<Rightarrow> real \<Rightarrow> (nat \<times> nat \<Rightarrow> real) \<Rightarrow> nat \<Rightarrow> nat \<Rightarrow> (nat \<Rightarrow> nat \<Rightarrow> real)" where
  "SCFPotential_u_phiTilde self r CC N L =
     (\<lambda>n l. if n < N \<and> l < L
            then (- ((r * u_a self) ^ l)) / ((u_a self + r) ^ (2 * l + 1))
                   * CC (n, l) * sqrt (4 * pi)
            else 0)"

text \<open>
  In \<open>_compute\<close> the name \<open>m\<close> is first the array \<open>nu.arange(0, L)\<close> and then the
  variable of the inner loop, an integer. \<open>m + 1\<close> adds one to either; \<open>range\<close>
  converts its argument to an integer, which numpy allows for an array of exactly one
  element and refuses with \<open>TypeError\<close> ("only length-1 arrays can be converted to
  Python scalars") for any other array.
\<close>

datatype py_index = IntArray "nat list" | PyInt nat

fun plus_one :: "py_index \<Rightarrow> py_index" where
  "plus_one (IntArray ks) = IntArray (map Suc ks)"
| "plus_one (PyInt k) = PyInt (Suc k)"

fun py_range :: "py_index \<Rightarrow> error + nat list" where
  "py_range (PyInt k) = Inr [0..<k]"
| "py_range (IntArray [k]) = Inr [0..<k]"
| "py_range (IntArray ks) = Inl TypeError"

text \<open>
  Elementwise arithmetic on one-dimensional arrays, with numpy's broadcasting: equal
  lengths, or one of the two of length one; anything else raises \<open>ValueError\<close>.
\<close>

definition broadcast ::
  "(real \<Rightarrow> real \<Rightarrow> real) \<Rightarrow> real list \<Rightarrow> real list \<Rightarrow> error + real list" where
  "broadcast f xs ys =
     (if length xs = length ys then Inr (map2 f xs ys)
      else if length ys = 1 then Inr (map (\<lambda>x. f x (hd ys)) xs)
      else if length xs = 1 then Inr (map (\<lambda>y. f (hd xs) y) ys)
      else Inl ValueError)"

text \<open>
  \<open>Acos[:,l,m]\<close>: the column of length \<open>N\<close>, or \<open>IndexError\<close> for an index outside the
  shape.
\<close>

definition column ::
  "nat \<times> nat \<times> nat \<Rightarrow> (nat \<Rightarrow> nat \<Rightarrow> nat \<Rightarrow> real) \<Rightarrow> nat \<Rightarrow> nat \<Rightarrow> error + real list" where
  "column shape A l m =
     (case shape of (N, L, M) \<Rightarrow>
        if l < L \<and> m < M then Inr (map (\<lambda>n. A n l m) [0..<N]) else Inl IndexError)"

text \<open>
  The assignment
  \<open>func[:,l,m] = (func_tilde[:,l]*(Acos[:,l,m]*mcos + Asin[:,l,m]*msin))*PP[l,m]*NN[l,m]\<close>.
  \<open>mcos\<close> and \<open>msin\<close> are the whole arrays \<open>nu.cos(m*phi)\<close> and \<open>nu.sin(m*phi)\<close> of length
  \<open>L\<close>. \<open>func\<close> is \<open>N \<times> L \<times> L\<close> and \<open>NN\<close> is \<open>L \<times> L\<close>, so \<open>m\<close> must be below \<open>L\<close>; the value
  assigned must have length \<open>N\<close> or one. \<open>func (l, m)\<close> is the column \<open>func[:,l,m]\<close>.
\<close>

definition compute_assign ::
  "SCFPotential \<Rightarrow> (nat \<Rightarrow> nat \<Rightarrow> real) \<Rightarrow> (nat \<Rightarrow> nat \<Rightarrow> real) \<Rightarrow> real list \<Rightarrow> real list
     \<Rightarrow> nat \<Rightarrow> nat \<Rightarrow> (nat \<times> nat \<Rightarrow> real list) \<Rightarrow> error + (nat \<times> nat \<Rightarrow> real list)"
where
  "compute_assign self func_tilde PP mcos msin l m func =
     (case Acos_shape self of (N, L, M) \<Rightarrow>
        and_then (column (N, L, M) (u_Acos self) l m) (\<lambda>acos.
        and_then (broadcast (*) acos mcos) (\<lambda>c.
        and_then (column (N, L, M) (u_Asin self) l m) (\<lambda>asin.
        and_then (broadcast (*) asin msin) (\<lambda>s.
        and_then (broadcast (+) c s) (\<lambda>cs.
        and_then (broadcast (*) (map (\<lambda>n. func_tilde n l) [0..<N]) cs) (\<lambda>v.
          if \<not> m < L then Inl IndexError
          else if length v = N \<or> length v = 1
          then Inr (func((l, m) :=
                 map (\<lambda>n. (if length v = 1 then hd v else v ! n) * PP l m * u_NN self l m)
                   [0..<N]))
          else Inl ValueError)))))))"

text \<open>\<open>for m in range(m + 1):\<close> the loop variable keeps its last value.\<close>

fun compute_inner ::
  "(nat \<Rightarrow> (nat \<times> nat \<Rightarrow> real list) \<Rightarrow> error + (nat \<times> nat \<Rightarrow> real list)) \<Rightarrow> nat list
     \<Rightarrow> py_index \<times> (nat \<times> nat \<Rightarrow> real list) \<Rightarrow> error + py_index \<times> (nat \<times> nat \<Rightarrow> real list)"
where
  "compute_inner assign [] state = Inr state"
| "compute_inner assign (k # ks) (m, func) =
     and_then (assign k func) (\<lambda>func'. compute_inner assign ks (PyInt k, func'))"

text \<open>\<open>for l in range(L):\<close> each turn evaluates \<open>range(m + 1)\<close> on the current \<open>m\<close>.\<close>

fun compute_outer ::
  "(nat \<Rightarrow> nat \<Rightarrow> (nat \<times> nat \<Rightarrow> real list) \<Rightarrow> error + (nat \<times> nat \<Rightarrow> real list)) \<Rightarrow> nat list
     \<Rightarrow> py_index \<times> (nat \<times> nat \<Rightarrow> real list) \<Rightarrow> error + py_index \<times> (nat \<times> nat \<Rightarrow> real list)"
where
  "compute_outer assign [] state = Inr state"
| "compute_outer assign (l # ls) (m, func) =
     and_then (py_range (plus_one m)) (\<lambda>ms.
     and_then (compute_inner (assign l) ms (m, func)) (\<lambda>state'.
       compute_outer assign ls state'))"

text \<open>
  \<open>_compute(funcTilde, R, z, phi)\<close>. \<open>bovy_coords.cyl_to_spher\<close> and \<open>scipy.special.lpmn\<close>
  are parameters: \<open>cyl_to_spher R phi z\<close> returns \<open>(r, theta, phi)\<close>, and \<open>lpmn L L x\<close> the
  table that the source indexes \<open>PP[l,m]\<close>. The result is the array \<open>func\<close>.
\<close>

definition SCFPotential_u_compute ::
  "(real \<Rightarrow> real \<Rightarrow> real \<Rightarrow> real \<times> real \<times> real) \<Rightarrow> (nat \<Rightarrow> nat \<Rightarrow> real \<Rightarrow> nat \<Rightarrow> nat \<Rightarrow> real)
     \<Rightarrow> SCFPotential
     \<Rightarrow> (SCFPotential \<Rightarrow> real \<Rightarrow> (nat \<times> nat \<Rightarrow> real) \<Rightarrow> nat \<Rightarrow> nat \<Rightarrow> (nat \<Rightarrow> nat \<Rightarrow> real))
     \<Rightarrow> real \<Rightarrow> real \<Rightarrow> real \<Rightarrow> error + (nat \<times> nat \<Rightarrow> real list)"
where
  "SCFPotential_u_compute cyl_to_spher lpmn self funcTilde R z phi0 =
     (case Acos_shape self of (N, L, M) \<Rightarrow>
        (case cyl_to_spher R phi0 z of (r, theta, phi) \<Rightarrow>
           (let xi = SCFPotential_u_calculateXi self r;
                PP = lpmn L L (cos theta);
                CC = SCFPotential_u_C xi L N;
                func_tilde = funcTilde self r CC N L;
                func = (\<lambda>lm. replicate N 0);
                m = IntArray [0..<L];
                mcos = map (\<lambda>k. cos (real k * phi)) [0..<L];
                msin = map (\<lambda>k. sin (real k * phi)) [0..<L]
            in and_then
                 (compute_outer (compute_assign self func_tilde PP mcos msin) [0..<L] (m, func))
                 (\<lambda>state. Inr (snd state)))))"

text \<open>\<open>nu.sum\<close> of the \<open>N \<times> L \<times> L\<close> array.\<close>

definition sum_func :: "nat \<Rightarrow> (nat \<times> nat \<Rightarrow> real list) \<Rightarrow> real" where
  "sum_func L func = (\<Sum>l\<leftarrow>[0..<L]. \<Sum>m\<leftarrow>[0..<L]. sum_list (func (l, m)))"

definition SCFPotential_u_dens ::
  "(real \<Rightarrow> real \<Rightarrow> real \<Rightarrow> real \<times> real \<times> real) \<Rightarrow> (nat \<Rightarrow> nat \<Rightarrow> real \<Rightarrow> nat \<Rightarrow> nat \<Rightarrow> real)
     \<Rightarrow> SCFPotential \<Rightarrow> real \<Rightarrow> real \<Rightarrow> real \<Rightarrow> real \<Rightarrow> error + real" where
  "SCFPotential_u_dens cyl_to_spher lpmn self R z phi t' =
     and_then (SCFPotential_u_compute cyl_to_spher lpmn self SCFPotential_u_rhoTilde R z phi)
       (\<lambda>func. Inr (sum_func (fst (snd (Acos_shape self))) func))"

definition SCFPotential_u_evaluate ::
  "(real \<Rightarrow> real \<Rightarrow> real \<Rightarrow> real \<times> real \<times> real) \<Rightarrow> (nat \<Rightarrow> nat \<Rightarrow> real \<Rightarrow> nat \<Rightarrow> nat \<Rightarrow> real)
     \<Rightarrow> SCFPotential \<Rightarrow> real \<Rightarrow> real \<Rightarrow> real \<Rightarrow> real \<Rightarrow> error + real" where
  "SCFPotential_u_evaluate cyl_to_spher lpmn self R z phi t' =
     and_then (SCFPotential_u_compute cyl_to_spher lpmn self SCFPotential_u_phiTilde R z phi)
       (\<lambda>func. Inr (sum_func (fst (snd (Acos_shape self))) func))"

text \<open>
  \<open>SCFPotential.__init__\<close>, for the attributes above: \<open>_NN\<close> is computed once, from
  \<open>Acos.shape[1]\<close>. The defaults are \<open>Acos = Asin = nu.ones((10,10,10))\<close> and \<open>a = 1.\<close>
\<close>

definition SCFPotential_init ::
  "nat \<times> nat \<times> nat \<Rightarrow> (nat \<Rightarrow> nat \<Rightarrow> nat \<Rightarrow> real) \<Rightarrow> (nat \<Rightarrow> nat \<Rightarrow> nat \<Rightarrow> real) \<Rightarrow> real \<Rightarrow> SCFPotential"
where
  "SCFPotential_init shape Acos Asin a =
     \<lparr>Acos_shape = shape, u_Acos = Acos, u_Asin = Asin, u_a = a,
      u_NN = SCFPotential_u_Nroot (fst (snd shape))\<rparr>"

definition SCFPotential_default :: SCFPotential where
  "SCFPotential_default = SCFPotential_init (10, 10, 10) (\<lambda>n l m. 1) (\<lambda>n l m. 1) 1"

text \<open>
  The sum the expansion stands for, in the words of the specification: over all
  \<open>n < N\<close>, \<open>l < L\<close> and \<open>m \<le> l\<close>, radial profile times angular factor times normalization
  times \<open>Acos cos (m phi) + Asin sin (m phi)\<close>.
\<close>

definition expansion_sum ::
  "nat \<Rightarrow> nat \<Rightarrow> (nat \<Rightarrow> nat \<Rightarrow> real) \<Rightarrow> (nat \<Rightarrow> nat \<Rightarrow> real) \<Rightarrow> (nat \<Rightarrow> nat \<Rightarrow> real)
     \<Rightarrow> (nat \<Rightarrow> nat \<Rightarrow> nat \<Rightarrow> real) \<Rightarrow> (nat \<Rightarrow> nat \<Rightarrow> nat \<Rightarrow> real) \<Rightarrow> real \<Rightarrow> real" where
  "expansion_sum N L radial PP NN Acos Asin phi =
     (\<Sum>n\<leftarrow>[0..<N]. \<Sum>l\<leftarrow>[0..<L]. \<Sum>m\<leftarrow>[0..<Suc l].
        radial n l * PP l m * NN l m
          * (Acos n l m * cos (real m * phi) + Asin n l m * sin (real m * phi)))"

section \<open>Potential.py: the radius of a circular orbit, and resonances\<close>






text \<open>
  The module-level \<open>omegac\<close> and \<open>epifreq\<close>. \<open>evaluateplanarRforces\<close>,
  \<open>evaluateplanarR2derivs\<close> and \<open>RZToplanarPotential\<close> come from \<open>planarPotential.py\<close>:
  parameters (\<open>planarRforces Pot R\<close>, \<open>planarR2derivs Pot R\<close>, \<open>toPlanar Pot\<close>), whose
  results are taken to be Python floats. A \<open>PotentialError\<close> of the first attempt is
  caught and the attempt repeated on the planar projection. \<open>epifreq\<close> calls the method
  \<open>Pot.epifreq\<close> when \<open>Pot\<close> is an instance of \<open>Potential\<close> or \<open>planarPotential\<close>:
  \<open>instanceEpifreq Pot\<close> is that method, and \<open>None\<close> when \<open>Pot\<close> is not such an instance.

  \<open>nu.sqrt(-force/R)\<close>: the quotient raises \<open>ZeroDivisionError\<close> when \<open>R\<close> is zero, and the
  square root of a negative quotient is \<open>nan\<close>.
\<close>

definition sqrt_of_quotient :: "real \<Rightarrow> real \<Rightarrow> error + np_float" where
  "sqrt_of_quotient force R =
     (if R = 0 then Inl ZeroDivisionError else Inr (np_sqrt (- force / R)))"




text \<open>
  The methods \<open>Potential.omegac\<close> and \<open>Potential.epifreq\<close>, which call \<open>Rforce\<close> and
  \<open>R2deriv\<close> at \<open>z = 0.\<close> with the default \<open>phi=0.\<close>.
\<close>

definition Potential_omegac :: "Potential \<Rightarrow> real \<Rightarrow> error + np_float" where
  "Potential_omegac self R =
     and_then (Potential_Rforce self R 0 (Some 0) 0) (\<lambda>force. sqrt_of_quotient force R)"

definition Potential_epifreq :: "Potential \<Rightarrow> real \<Rightarrow> error + np_float" where
  "Potential_epifreq self R =
     and_then (Potential_R2deriv self R 0 (Some 0) 0) (\<lambda>deriv.
       if R = 0 then Inl ZeroDivisionError
       else and_then (Potential_Rforce self R 0 (Some 0) 0) (\<lambda>force.
              Inr (np_sqrt (deriv - 3 / R * force))))"








subsection \<open>A root finder and rotation curves to run on\<close>








chapter \<open>Properties\<close>

section \<open>Rounding to double\<close>

lemma round_half_even_of_int: "round_half_even (of_int k) = k"
  by (simp add: round_half_even_def)


lemma double_zero: "double 0 = 0"
  by (simp add: double_def)

lemma double_binade:
  assumes "2 powr of_int k \<le> \<bar>x\<bar>" and "\<bar>x\<bar> < 2 powr (of_int k + 1)"
  shows "double x = of_int (round_half_even (x / 2 powr of_int (k - 52))) * 2 powr of_int (k - 52)"
proof -
  have pos: "0 < \<bar>x\<bar>" using assms(1) by (smt (verit) powr_gt_zero)
  then have nz: "x \<noteq> 0" by simp
  have "of_int k \<le> log 2 \<bar>x\<bar>" using assms(1) pos by (simp add: le_log_iff)
  moreover have "log 2 \<bar>x\<bar> < of_int k + 1" using assms(2) pos by (simp add: log_less_iff)
  ultimately have "\<lfloor>log 2 \<bar>x\<bar>\<rfloor> = k" by linarith
  with nz show ?thesis by (simp add: double_def Let_def)
qed

lemma double_scaled_up:
  assumes "2 ^ 52 \<le> \<bar>x\<bar> * 2 ^ n" and "\<bar>x\<bar> * 2 ^ n < 2 ^ 53"
  shows "double x = of_int (round_half_even (x * 2 ^ n)) / 2 ^ n"
proof -
  have p: "2 powr of_int (52 - int n) = 2 ^ 52 / (2 :: real) ^ n"
    by (simp add: powr_diff powr_realpow flip: powr_realpow)
  have q: "2 powr (of_int (52 - int n) + 1) = 2 ^ 53 / (2 :: real) ^ n"
    by (simp add: powr_diff powr_add powr_realpow field_simps flip: powr_realpow)
  have r: "2 powr of_int (52 - int n - 52) = 1 / (2 :: real) ^ n"
    by (simp add: powr_minus powr_realpow field_simps)
  have "2 powr of_int (52 - int n) \<le> \<bar>x\<bar>"
    using assms(1) unfolding p by (simp add: field_simps)
  moreover have "\<bar>x\<bar> < 2 powr (of_int (52 - int n) + 1)"
    using assms(2) unfolding q by (simp add: field_simps)
  ultimately show ?thesis
    using double_binade [of "52 - int n" x] unfolding r by simp
qed

lemma double_scaled_down:
  assumes "2 ^ 52 \<le> \<bar>x\<bar> / 2 ^ n" and "\<bar>x\<bar> / 2 ^ n < 2 ^ 53"
  shows "double x = of_int (round_half_even (x / 2 ^ n)) * 2 ^ n"
proof -
  have p: "2 powr of_int (52 + int n) = 2 ^ 52 * (2 :: real) ^ n"
    by (simp add: powr_add powr_realpow flip: powr_realpow)
  have q: "2 powr (of_int (52 + int n) + 1) = 2 ^ 53 * (2 :: real) ^ n"
    by (simp add: powr_add powr_realpow field_simps flip: powr_realpow)
  have r: "2 powr of_int (52 + int n - 52) = (2 :: real) ^ n"
    by (simp add: powr_realpow)
  have "2 powr of_int (52 + int n) \<le> \<bar>x\<bar>"
    using assms(1) unfolding p by (simp add: field_simps)
  moreover have "\<bar>x\<bar> < 2 powr (of_int (52 + int n) + 1)"
    using assms(2) unfolding q by (simp add: field_simps)
  ultimately show ?thesis
    using double_binade [of "52 + int n" x] unfolding r by simp
qed


text \<open>A number with at most 53 significant bits is a double: rounding returns it.\<close>

lemma double_representable_quotient:
  assumes "2 ^ 52 \<le> \<bar>m\<bar>" and "\<bar>m\<bar> < 2 ^ 53"
  shows "double (of_int m / 2 ^ n) = of_int m / 2 ^ n"
proof -
  have "2 ^ 52 \<le> \<bar>of_int m / (2 :: real) ^ n\<bar> * 2 ^ n"
    using assms(1) by (simp add: abs_divide of_int_abs [symmetric] del: of_int_abs) 
  moreover have "\<bar>of_int m / (2 :: real) ^ n\<bar> * 2 ^ n < 2 ^ 53"
    using assms(2) by (simp add: abs_divide of_int_abs [symmetric] del: of_int_abs) 
  ultimately show ?thesis
    using double_scaled_up [of "of_int m / 2 ^ n" n] by (simp add: round_half_even_of_int)
qed

lemma double_representable_product:
  assumes "2 ^ 52 \<le> \<bar>m\<bar>" and "\<bar>m\<bar> < 2 ^ 53"
  shows "double (of_int m * 2 ^ n) = of_int m * 2 ^ n"
proof -
  have "2 ^ 52 \<le> \<bar>of_int m * (2 :: real) ^ n\<bar> / 2 ^ n"
    using assms(1) by (simp add: abs_mult of_int_abs [symmetric] del: of_int_abs) 
  moreover have "\<bar>of_int m * (2 :: real) ^ n\<bar> / 2 ^ n < 2 ^ 53"
    using assms(2) by (simp add: abs_mult of_int_abs [symmetric] del: of_int_abs) 
  ultimately show ?thesis
    using double_scaled_down [of "of_int m * 2 ^ n" n] by (simp add: round_half_even_of_int)
qed

lemma double_small_numbers:
  "double 1 = 1" "double 2 = 2" "double 3 = 3" "double 4 = 4" "double 6 = 6"
  "double 48 = 48" "double 49 = 49"
  using double_representable_quotient [of "2 ^ 52" 52]
    double_representable_quotient [of "2 ^ 52" 51]
    double_representable_quotient [of "3 * 2 ^ 51" 51]
    double_representable_quotient [of "2 ^ 52" 50]
    double_representable_quotient [of "3 * 2 ^ 51" 50]
    double_representable_quotient [of "3 * 2 ^ 51" 47]
    double_representable_quotient [of "49 * 2 ^ 47" 47]
  by simp_all

lemma double_large_numbers:
  "double (2 ^ 53) = 2 ^ 53" "double (2 ^ 53 + 2) = 2 ^ 53 + 2"
  using double_representable_product [of "2 ^ 52" 1]
    double_representable_product [of "2 ^ 52 + 1" 1]
  by simp_all

lemma double_tie_to_even: "double (2 ^ 53 + 1) = 2 ^ 53"
  using double_scaled_down [of "2 ^ 53 + 1" 1] by (simp add: round_half_even_def)






section \<open>Diagnostics of an integrated orbit\<close>

lemma ensure_rs_Some: "self_rs (ensure_rs self orb) \<noteq> None"
  by (simp add: ensure_rs_def split: option.splits)

lemma ensure_rs_fresh:
  "self_rs self = None \<Longrightarrow> the (self_rs (ensure_rs self orb)) = column0_squared orb"
  by (simp add: ensure_rs_def)

text \<open>
  On a freshly integrated orbit with at least one sample, \<open>rap\<close> is the largest
  \<^emph>\<open>squared\<close> radius and \<open>rperi\<close> the smallest squared radius.
\<close>

lemma rap_is_max_square:
  assumes "self_orbit self = Some orb" and "self_rs self = None" and "orb \<noteq> []"
  shows "fst (planarOrbitTop_rap self) = Inr (Max ((\<lambda>r. r\<^sup>2) ` set (sampled_radii orb)))"
  using assms
  by (simp add: planarOrbitTop_rap_def Let_def ensure_rs_def amax_def column0_squared_def
      sampled_radii_def image_image)

lemma rperi_is_min_square:
  assumes "self_orbit self = Some orb" and "self_rs self = None" and "orb \<noteq> []"
  shows "fst (planarOrbitTop_rperi self) = Inr (Min ((\<lambda>r. r\<^sup>2) ` set (sampled_radii orb)))"
  using assms
  by (simp add: planarOrbitTop_rperi_def Let_def ensure_rs_def amin_def column0_squared_def
      sampled_radii_def image_image)

text \<open>
  C1. The claim: on an integrated orbit, \<open>e()\<close> is \<open>(r_max - r_min) / (r_max + r_min)\<close>,
  \<open>rap()\<close> is \<open>r_max\<close> and \<open>rperi()\<close> is \<open>r_min\<close>, over the sampled radii. The code
  takes the extrema of the squared radii instead: on the orbit sampled at the radii
  2 and 3 the largest and smallest sampled radius are 3 and 2 and the claimed
  eccentricity is 1/5, but \<open>rap\<close> returns 9, \<open>rperi\<close> returns 4, and both \<open>e\<close> methods
  return 5/13.
\<close>

theorem diagnostics_use_squared_radii:
  "amax (sampled_radii (the (self_orbit orbit_2_3))) = Inr 3
   \<and> amin (sampled_radii (the (self_orbit orbit_2_3))) = Inr 2
   \<and> fst (planarOrbitTop_rap orbit_2_3) = Inr 9
   \<and> fst (planarOrbitTop_rperi orbit_2_3) = Inr 4
   \<and> fst (planarOrbitTop_e orbit_2_3) = Inr (5 / 13)
   \<and> fst (planarOrbit_e orbit_2_3) = Inr (5 / 13)
   \<and> (3 - 2) / (3 + 2) \<noteq> (5 / 13 :: real)"
  by (simp add: orbit_2_3_def planarOrbitTop_rap_def planarOrbitTop_rperi_def
      planarOrbitTop_e_def planarOrbit_e_def Let_def
      ensure_rs_def eccentricity_of_def amax_def amin_def column0_squared_def
      sampled_radii_def)

section \<open>The class Potential\<close>

text \<open>
  C7. A field without a raw \<open>_phiforce\<close> (or \<open>_phi2deriv\<close>, \<open>_Rphideriv\<close>) returns exactly 0
  from \<open>phiforce\<close> (\<open>phi2deriv\<close>, \<open>Rphideriv\<close>) when it is axisymmetric, and raises the
  \<open>PotentialError\<close> of the function that is not implemented when it is not.
\<close>

theorem azimuthal_default_or_failure:
  "(u_phiforce self = None \<longrightarrow>
      Potential_phiforce self R z phi t' =
        (if isNonAxi self then Inl (PotentialError NonAxiNotImplemented) else Inr 0)
      \<and> Potential_u_phiforce_nodecorator self R z phi t' =
        (if isNonAxi self then Inl (PotentialError NonAxiNotImplemented) else Inr 0))
   \<and> (u_phi2deriv self = None \<longrightarrow>
      Potential_phi2deriv self R z phi t' =
        (if isNonAxi self then Inl (PotentialError NonAxiNotImplemented) else Inr 0))
   \<and> (u_Rphideriv self = None \<longrightarrow>
      Potential_Rphideriv self R z phi t' =
        (if isNonAxi self then Inl (PotentialError NonAxiNotImplemented) else Inr 0))"
  by (simp add: Potential_phiforce_def Potential_u_phiforce_nodecorator_def
      Potential_phi2deriv_def Potential_Rphideriv_def azimuthal_raw_def)

theorem azimuthal_default_or_failure_witness:
  "u_phiforce (harmonic 1) = None \<and> u_phi2deriv (harmonic 1) = None
   \<and> u_Rphideriv (harmonic 1) = None \<and> \<not> isNonAxi (harmonic 1)
   \<and> Potential_phiforce (harmonic 1) 2 0 (Some 0) 0 = Inr 0
   \<and> Potential_phi2deriv (harmonic 1) 2 0 (Some 0) 0 = Inr 0
   \<and> Potential_Rphideriv (harmonic 1) 2 0 (Some 0) 0 = Inr 0
   \<and> u_phiforce (quadrupole 1) = None \<and> u_phi2deriv (quadrupole 1) = None
   \<and> u_Rphideriv (quadrupole 1) = None \<and> isNonAxi (quadrupole 1)
   \<and> Potential_phiforce (quadrupole 1) 2 0 (Some 0) 0
       = Inl (PotentialError NonAxiNotImplemented)
   \<and> Potential_phi2deriv (quadrupole 1) 2 0 (Some 0) 0
       = Inl (PotentialError NonAxiNotImplemented)
   \<and> Potential_Rphideriv (quadrupole 1) 2 0 (Some 0) 0
       = Inl (PotentialError NonAxiNotImplemented)"
  using azimuthal_default_or_failure [of "harmonic 1" 2 0 "Some 0" 0]
    azimuthal_default_or_failure [of "quadrupole 1" 2 0 "Some 0" 0]
  by (simp add: harmonic_def quadrupole_def Potential_init_def)

text \<open>A raw function that is defined is scaled by the amplitude, whatever \<open>isNonAxi\<close> says.\<close>

lemma azimuthal_raw_defined:
  "u_phiforce self = Some f \<Longrightarrow> Potential_phiforce self R z phi t' = Inr (u_amp self * f R z phi t')"
  by (simp add: Potential_phiforce_def Potential_u_phiforce_nodecorator_def azimuthal_raw_def)

text \<open>
  C10. When the radial force at \<open>R = 1\<close>, \<open>z = 0\<close> is \<open>F\<close> (the call returns, with the amplitude
  the field has before the rescaling), \<open>normalize\<close> returns the field with the amplitude
  multiplied by \<open>norm / |F|\<close> (for \<open>F\<close> other than 0) and with every other attribute as it
  was: \<open>ro\<close>, \<open>vo\<close>, the flags of the unit output, the structural flags and the raw
  functions.
\<close>

theorem normalize_rescales_amplitude_only:
  assumes "Potential_Rforce self 1 0 (Some 0) t' = Inr F"
  shows "\<exists>s'. Potential_normalize self nrm t' = Inr s'
    \<and> (F \<noteq> 0 \<longrightarrow> u_amp s' = u_amp self * (nrm / \<bar>F\<bar>))
    \<and> s' = self\<lparr>u_amp := u_amp s'\<rparr>
    \<and> u_ro s' = u_ro self \<and> u_vo s' = u_vo self
    \<and> u_roSet s' = u_roSet self \<and> u_voSet s' = u_voSet self
    \<and> dim s' = dim self \<and> isRZ s' = isRZ self \<and> isNonAxi s' = isNonAxi self
    \<and> hasC s' = hasC self \<and> hasC_dxdv s' = hasC_dxdv self
    \<and> u_evaluate s' = u_evaluate self \<and> u_Rforce s' = u_Rforce self
    \<and> u_zforce s' = u_zforce self \<and> u_phiforce s' = u_phiforce self
    \<and> u_R2deriv s' = u_R2deriv self \<and> u_z2deriv s' = u_z2deriv self
    \<and> u_Rzderiv s' = u_Rzderiv self \<and> u_phi2deriv s' = u_phi2deriv self
    \<and> u_Rphideriv s' = u_Rphideriv self \<and> u_dens s' = u_dens self"
  using assms by (simp add: Potential_normalize_def)

lemma harmonic_Rforce: "Potential_Rforce (harmonic a) R z phi t' = Inr (a * - R)"
  by (simp add: Potential_Rforce_def Potential_u_Rforce_nodecorator_def required_raw_def
      harmonic_def Potential_init_def)

theorem normalize_rescales_amplitude_only_witness:
  "Potential_Rforce (harmonic 3) 1 0 (Some 0) 0 = Inr (- 3)
   \<and> Potential_normalize (harmonic 3) 2 0 = Inr (harmonic 2)"
proof -
  have force: "Potential_Rforce (harmonic 3) 1 0 (Some 0) 0 = Inr (- 3)"
    by (simp add: harmonic_Rforce)
  from normalize_rescales_amplitude_only [OF force, of 2]
  obtain s' where s': "Potential_normalize (harmonic 3) 2 0 = Inr s'"
    and amp: "u_amp s' = u_amp (harmonic 3) * (2 / \<bar>- 3 :: real\<bar>)"
    and rest: "s' = (harmonic 3)\<lparr>u_amp := u_amp s'\<rparr>"
    by auto
  from amp have "u_amp s' = 2" by (simp add: harmonic_def Potential_init_def)
  with rest have "s' = harmonic 2" by (simp add: harmonic_def Potential_init_def)
  with s' force show ?thesis by simp
qed

text \<open>When the radial force is not implemented the call raises, and no field is returned.\<close>

lemma normalize_without_Rforce:
  "u_Rforce self = None \<Longrightarrow>
   Potential_normalize self nrm t' = Inl (PotentialError (FunctionNotImplemented ''_Rforce''))"
  by (simp add: Potential_normalize_def Potential_Rforce_def
      Potential_u_Rforce_nodecorator_def required_raw_def)

section \<open>Evaluating a potential or a list of potentials\<close>

lemma isNonAxi_list: "u_isNonAxi (PotList ps) \<longleftrightarrow> (\<exists>p \<in> set ps. isNonAxi p)"
  by (induction ps) (auto simp: u_isNonAxi_def)


lemma sum_members_numbers:
  "\<forall>p \<in> set ps. is_number (meth p) \<Longrightarrow>
   sum_members meth acc ps = Inr (foldl float_add acc (map (\<lambda>p. number_of (meth p)) ps))"
proof (induction ps arbitrary: acc)
  case Nil
  then show ?case by simp
next
  case (Cons p ps)
  from Cons.prems obtain v where v: "meth p = Inr (Some v)"
    by (auto simp: is_number_def split: sum.splits option.splits)
  with Cons show ?case by (simp add: number_of_def)
qed



lemma evaluate_with_list_sum:
  assumes "\<not> (u_isNonAxi (PotList ps) \<and> phi = None)"
    and "\<forall>p \<in> set ps. is_number (meth p)"
  shows "evaluate_with meth (PotList ps) phi
           = Inr (Some (float_sum (map (\<lambda>p. number_of (meth p)) ps)))"
  using assms sum_members_numbers [of ps meth "Finite 0"]
  by (auto simp: evaluate_with_def float_sum_def)

lemma evaluate_with_instance_number:
  assumes "is_number (evaluate_with meth (Instance p) phi)"
  shows "\<not> (isNonAxi p \<and> phi = None)" and "evaluate_with meth (Instance p) phi = meth p"
  using assms by (auto simp: evaluate_with_def u_isNonAxi_def is_number_def split: if_splits)

lemma evaluate_with_list_of_numbers:
  assumes "\<forall>p \<in> set ps. is_number (evaluate_with meth (Instance p) phi)"
  shows "evaluate_with meth (PotList ps) phi
           = Inr (Some (float_sum
               (map (\<lambda>p. number_of (evaluate_with meth (Instance p) phi)) ps)))"
proof -
  have axi: "\<forall>p \<in> set ps. \<not> (isNonAxi p \<and> phi = None)"
    using assms evaluate_with_instance_number(1) by blast
  have same: "\<forall>p \<in> set ps. evaluate_with meth (Instance p) phi = meth p"
    using assms evaluate_with_instance_number(2) by blast
  from axi have guard: "\<not> (u_isNonAxi (PotList ps) \<and> phi = None)"
    unfolding isNonAxi_list by blast
  from assms same have numbers: "\<forall>p \<in> set ps. is_number (meth p)"
    by metis
  have "map (\<lambda>p. number_of (evaluate_with meth (Instance p) phi)) ps
          = map (\<lambda>p. number_of (meth p)) ps"
    by (rule map_cong [OF refl]) (use same in metis)
  with evaluate_with_list_sum [OF guard numbers] show ?thesis
    by (simp only:)
qed

lemma float_sum_pair:
  assumes "double a = a" and "double b = b"
  shows "float_sum [Finite a, Finite b] = Finite (double (a + b))"
    and "float_sum [Finite b, Finite a] = Finite (double (a + b))"
  using assms by (simp_all add: float_sum_def add.commute)

lemma harmonic_call:
  "Potential_u_call_nodecorator (harmonic a) R z phi t' 0 0 = Inr (Some (a * ((R\<^sup>2 + z\<^sup>2) / 2)))"
  by (simp add: Potential_u_call_nodecorator_def harmonic_def Potential_init_def)

lemma quadrupole_call:
  "Potential_u_call_nodecorator (quadrupole a) R z (Some phi) t' 0 0
     = Inr (Some (a * (R\<^sup>2 * cos (2 * phi) / 2)))"
  by (simp add: Potential_u_call_nodecorator_def quadrupole_def Potential_init_def)

lemma example_flags:
  "\<not> isNonAxi (harmonic a)" "isNonAxi (quadrupole a)" "\<not> isNonAxi (Potential_init a ro vo)"
  by (simp_all add: harmonic_def quadrupole_def Potential_init_def)

lemma harmonic_single:
  "u_evaluatePotentials (Instance (harmonic a)) R z phi t' 0 0
     = Inr (Some (Finite (a * ((R\<^sup>2 + z\<^sup>2) / 2))))"
  by (simp add: u_evaluatePotentials_def evaluate_with_def u_isNonAxi_def example_flags
      harmonic_call as_float_def)

lemma harmonic_list:
  "u_evaluatePotentials (PotList (map harmonic amps)) R z phi t' 0 0
     = Inr (Some (float_sum (map (\<lambda>a. Finite (a * ((R\<^sup>2 + z\<^sup>2) / 2))) amps)))"
proof -
  have "\<forall>p \<in> set (map harmonic amps).
          is_number (as_float (Potential_u_call_nodecorator p R z phi t' 0 0))"
    by (auto simp: harmonic_call as_float_def is_number_def)
  moreover have "\<not> (u_isNonAxi (PotList (map harmonic amps)) \<and> phi = None)"
    by (auto simp: isNonAxi_list example_flags)
  ultimately show ?thesis
    unfolding u_evaluatePotentials_def
    by (simp add: evaluate_with_list_sum harmonic_call as_float_def number_of_def comp_def)
qed

text \<open>
  C5, as stated, fails for a list of three. At \<open>R = 2\<close>, \<open>z = 0\<close> the harmonic potentials
  of amplitudes \<open>2\<^sup>5\<^sup>2\<close>, \<open>1/2\<close> and \<open>1/2\<close> evaluate to \<open>2\<^sup>5\<^sup>3\<close>, 1 and 1. The list in this
  order evaluates to \<open>2\<^sup>5\<^sup>3\<close>, since \<open>2\<^sup>5\<^sup>3 + 1\<close> rounds to \<open>2\<^sup>5\<^sup>3\<close>; the list with the large
  member last evaluates to \<open>2\<^sup>5\<^sup>3 + 2\<close>, which is the sum of the three values.
\<close>

theorem evaluatePotentials_list_depends_on_order:
  "u_evaluatePotentials (Instance (harmonic (2 ^ 52))) 2 0 None 0 0 0 = Inr (Some (Finite (2 ^ 53)))
   \<and> u_evaluatePotentials (Instance (harmonic (1 / 2))) 2 0 None 0 0 0 = Inr (Some (Finite 1))
   \<and> u_evaluatePotentials (PotList [harmonic (2 ^ 52), harmonic (1 / 2), harmonic (1 / 2)])
         2 0 None 0 0 0
       = Inr (Some (Finite (2 ^ 53)))
   \<and> u_evaluatePotentials (PotList [harmonic (1 / 2), harmonic (1 / 2), harmonic (2 ^ 52)])
         2 0 None 0 0 0
       = Inr (Some (Finite (2 ^ 53 + 2)))
   \<and> (2 ^ 53 :: real) \<noteq> 2 ^ 53 + 1 + 1"
proof -
  have large: "double 9007199254740992 = 9007199254740992"
    and sum: "double 9007199254740994 = 9007199254740994"
    using double_large_numbers by simp_all
  have tie: "double 9007199254740993 = 9007199254740992"
    using double_tie_to_even by simp
  have "u_evaluatePotentials (PotList (map harmonic [2 ^ 52, 1 / 2, 1 / 2])) 2 0 None 0 0 0
          = Inr (Some (Finite (2 ^ 53)))"
    unfolding harmonic_list by (simp add: float_sum_def large tie)
  moreover
  have "u_evaluatePotentials (PotList (map harmonic [1 / 2, 1 / 2, 2 ^ 52])) 2 0 None 0 0 0
          = Inr (Some (Finite (2 ^ 53 + 2)))"
    unfolding harmonic_list by (simp add: float_sum_def double_small_numbers sum)
  ultimately show ?thesis
    by (simp add: harmonic_single)
qed

text \<open>
  C5, amended. When every member of a list evaluates to a number at \<open>(R, z, phi, t)\<close>,
  the list evaluates to the float sum of these numbers, accumulated from \<open>0.\<close> in the
  order of the list. For a list of two members whose values \<open>a\<close> and \<open>b\<close> are doubles,
  this is the float sum \<open>a + b\<close> in either order:
  \<open>evaluate([A,B]) = evaluate([B,A]) = evaluate(A) + evaluate(B)\<close>.
\<close>

theorem evaluatePotentials_list_is_float_sum_of_members:
  assumes "\<forall>p \<in> set ps. is_number (u_evaluatePotentials (Instance p) R z phi t' dR dphi)"
  shows "u_evaluatePotentials (PotList ps) R z phi t' dR dphi
           = Inr (Some (float_sum
               (map (\<lambda>p. number_of (u_evaluatePotentials (Instance p) R z phi t' dR dphi)) ps)))
         \<and> (\<forall>A B a b.
               ps = [A, B]
               \<and> u_evaluatePotentials (Instance A) R z phi t' dR dphi = Inr (Some (Finite a))
               \<and> u_evaluatePotentials (Instance B) R z phi t' dR dphi = Inr (Some (Finite b))
               \<and> double a = a \<and> double b = b
               \<longrightarrow> u_evaluatePotentials (PotList [A, B]) R z phi t' dR dphi
                     = Inr (Some (Finite (double (a + b))))
                 \<and> u_evaluatePotentials (PotList [B, A]) R z phi t' dR dphi
                     = Inr (Some (Finite (double (a + b)))))"
proof (intro conjI allI impI)
  show "u_evaluatePotentials (PotList ps) R z phi t' dR dphi
           = Inr (Some (float_sum
               (map (\<lambda>p. number_of (u_evaluatePotentials (Instance p) R z phi t' dR dphi)) ps)))"
    using assms unfolding u_evaluatePotentials_def by (rule evaluate_with_list_of_numbers)
next
  fix A B a b
  assume pair: "ps = [A, B]
      \<and> u_evaluatePotentials (Instance A) R z phi t' dR dphi = Inr (Some (Finite a))
      \<and> u_evaluatePotentials (Instance B) R z phi t' dR dphi = Inr (Some (Finite b))
      \<and> double a = a \<and> double b = b"
  let ?meth = "\<lambda>pot. as_float (Potential_u_call_nodecorator pot R z phi t' dR dphi)"
  from pair have A: "evaluate_with ?meth (Instance A) phi = Inr (Some (Finite a))"
    and B: "evaluate_with ?meth (Instance B) phi = Inr (Some (Finite b))"
    and doubles: "double a = a" "double b = b"
    by (simp_all add: u_evaluatePotentials_def)
  have "\<forall>p \<in> set [A, B]. is_number (evaluate_with ?meth (Instance p) phi)"
    by (simp add: A B is_number_def)
  from evaluate_with_list_of_numbers [OF this]
  show "u_evaluatePotentials (PotList [A, B]) R z phi t' dR dphi
          = Inr (Some (Finite (double (a + b))))"
    by (simp add: u_evaluatePotentials_def A B number_of_def float_sum_pair(1) [OF doubles])
  have "\<forall>p \<in> set [B, A]. is_number (evaluate_with ?meth (Instance p) phi)"
    by (simp add: A B is_number_def)
  from evaluate_with_list_of_numbers [OF this]
  show "u_evaluatePotentials (PotList [B, A]) R z phi t' dR dphi
          = Inr (Some (Finite (double (a + b))))"
    by (simp add: u_evaluatePotentials_def A B number_of_def float_sum_pair(2) [OF doubles])
qed

theorem evaluatePotentials_list_is_float_sum_of_members_witness:
  "u_evaluatePotentials (Instance (harmonic 1)) 2 0 None 0 0 0 = Inr (Some (Finite 2))
   \<and> u_evaluatePotentials (Instance (harmonic 2)) 2 0 None 0 0 0 = Inr (Some (Finite 4))
   \<and> u_evaluatePotentials (PotList [harmonic 1, harmonic 2]) 2 0 None 0 0 0
       = Inr (Some (Finite 6))
   \<and> u_evaluatePotentials (PotList [harmonic 2, harmonic 1]) 2 0 None 0 0 0
       = Inr (Some (Finite 6))"
proof -
  have a: "u_evaluatePotentials (Instance (harmonic 1)) 2 0 None 0 0 0 = Inr (Some (Finite 2))"
    by (simp add: harmonic_single)
  have b: "u_evaluatePotentials (Instance (harmonic 2)) 2 0 None 0 0 0 = Inr (Some (Finite 4))"
    by (simp add: harmonic_single)
  have "\<forall>p \<in> set [harmonic 1, harmonic 2].
          is_number (u_evaluatePotentials (Instance p) 2 0 None 0 0 0)"
    by (simp add: a b is_number_def)
  from evaluatePotentials_list_is_float_sum_of_members [OF this]
  have "u_evaluatePotentials (PotList [harmonic 1, harmonic 2]) 2 0 None 0 0 0
          = Inr (Some (Finite (double (2 + 4))))"
    and "u_evaluatePotentials (PotList [harmonic 2, harmonic 1]) 2 0 None 0 0 0
          = Inr (Some (Finite (double (2 + 4))))"
    using a b double_small_numbers by blast+
  with a b show ?thesis by (simp add: double_small_numbers)
qed
















section \<open>Equations of motion and integration\<close>










lemma integrateOrbit_short_list:
  "length vxvv < 3 \<Longrightarrow> u_integrateOrbit odeint forceR forcephi vxvv pot ts = Inl IndexError"
  by (simp add: u_integrateOrbit_def)

lemma integrateOrbit_three_entries:
  "length vxvv = 3 \<Longrightarrow> vxvv ! 0 \<noteq> 0
     \<Longrightarrow> u_integrateOrbit odeint forceR forcephi vxvv pot ts = Inl IndexError"
  by (simp add: u_integrateOrbit_def)

text \<open>
  C4. Full planar integration of a list \<open>vxvv = [R0, vR0, vT0, phi0]\<close>. When \<open>R0\<close> is
  zero, the quotient \<open>vT0 / R0\<close> raises \<open>ZeroDivisionError\<close>. Otherwise the primitive
  integrates \<open>(R, vR, phi, vT / R)\<close> from \<open>[R0, vR0, phi0, vT0 / R0]\<close> with the
  right-hand side \<open>dR/dt = vR\<close>, \<open>dvR/dt = (R\<^sup>2 w)\<^sup>2 / R\<^sup>3 + radialForce(R, phi)\<close>,
  \<open>dphi/dt = w\<close>, \<open>dw/dt = 1 / R\<^sup>2 * (azimuthalForce(R, phi) - 2 R vR w)\<close>, where
  \<open>w = vT / R\<close>, and every output row is \<open>[R, vR, R * w, phi]\<close>.
\<close>

theorem full_planar_integration_equations:
  assumes "4 \<le> length vxvv" and "i < length ts"
  shows "(vxvv ! 0 = 0 \<longrightarrow>
            u_integrateOrbit odeint forceR forcephi vxvv pot ts = Inl ZeroDivisionError)
      \<and> (vxvv ! 0 \<noteq> 0 \<longrightarrow>
            (\<exists>out.
               u_integrateOrbit odeint forceR forcephi vxvv pot ts = Inr out
               \<and> length out = length ts
               \<and> (let intOut = odeint (\<lambda>y t'. u_EOM forceR forcephi y t' pot)
                                  [vxvv ! 0, vxvv ! 1, vxvv ! 3, vxvv ! 2 / vxvv ! 0] ts
                   in out ! i = [intOut ! i ! 0, intOut ! i ! 1,
                                 intOut ! i ! 0 * intOut ! i ! 3, intOut ! i ! 2])))
      \<and> (R \<noteq> 0 \<longrightarrow>
            u_EOM forceR forcephi [R, vR, phi, w] t' pot
              = [vR,
                 (R\<^sup>2 * w)\<^sup>2 / R ^ 3 + forceR R pot (Some phi) t',
                 w,
                 1 / R\<^sup>2 * (forcephi R pot (Some phi) t' - 2 * R * vR * w)])"
  using assms by (simp add: u_integrateOrbit_def Let_def u_EOM_def)

lemma euler_full_example:
  "euler_odeint (\<lambda>y t'. u_EOM harmonic_planarRforce constant_planarphiforce y t' ())
       [1, 1, 0, 2] [0, 1 / 2]
     = [[1, 1, 0, 2], [3 / 2, 5 / 2, 1, 1 / 2]]"
  by (simp add: euler_odeint_def u_EOM_def harmonic_planarRforce_def
      constant_planarphiforce_def Let_def)

theorem full_planar_integration_equations_witness:
  "u_integrateOrbit euler_odeint harmonic_planarRforce constant_planarphiforce
       [1, 1, 2, 0] () [0, 1 / 2]
     = Inr [[1, 1, 2, 0], [3 / 2, 5 / 2, 3 / 4, 1]]
   \<and> u_integrateOrbit euler_odeint harmonic_planarRforce constant_planarphiforce
       [0, 1, 2, 0] () [0, 1 / 2]
     = Inl ZeroDivisionError
   \<and> u_EOM harmonic_planarRforce constant_planarphiforce [1, 1, 0, 2] 0 () = [1, 3, 2, - 3]"
proof -
  from full_planar_integration_equations
    [of "[1, 1, 2, 0]" 0 "[0, 1 / 2]" euler_odeint harmonic_planarRforce
        constant_planarphiforce "()" 1 1 0 2 0]
  obtain out where out:
      "u_integrateOrbit euler_odeint harmonic_planarRforce constant_planarphiforce
         [1, 1, 2, 0] () [0, 1 / 2] = Inr out"
    and len: "length out = 2" and r0: "out ! 0 = [1, 1, 2, 0]"
    and rhs: "u_EOM harmonic_planarRforce constant_planarphiforce [1, 1, 0, 2] 0 ()
                = [1, 3, 2, - 3]"
    by (auto simp: Let_def euler_full_example harmonic_planarRforce_def
        constant_planarphiforce_def)
  from full_planar_integration_equations
    [of "[1, 1, 2, 0]" 1 "[0, 1 / 2]" euler_odeint harmonic_planarRforce
        constant_planarphiforce "()" 1 1 0 2 0] out
  have r1: "out ! 1 = [3 / 2, 5 / 2, 3 / 4, 1]"
    by (auto simp: Let_def euler_full_example)
  from len obtain a b where "out = [a, b]"
    by (cases out; cases "tl out") auto
  with r0 r1 have "out = [[1, 1, 2, 0], [3 / 2, 5 / 2, 3 / 4, 1]]"
    by simp
  with out have first:
      "u_integrateOrbit euler_odeint harmonic_planarRforce constant_planarphiforce
         [1, 1, 2, 0] () [0, 1 / 2]
       = Inr [[1, 1, 2, 0], [3 / 2, 5 / 2, 3 / 4, 1]]"
    by simp
  from full_planar_integration_equations
    [of "[0, 1, 2, 0]" 0 "[0, 1 / 2]" euler_odeint harmonic_planarRforce
        constant_planarphiforce "()" 1 1 0 2 0]
  have second:
      "u_integrateOrbit euler_odeint harmonic_planarRforce constant_planarphiforce
         [0, 1, 2, 0] () [0, 1 / 2] = Inl ZeroDivisionError"
    by simp
  from first second rhs show ?thesis by simp
qed

section \<open>The expansion of SCFPotential\<close>

lemma py_range_array: "length ks \<noteq> 1 \<Longrightarrow> py_range (IntArray ks) = Inl TypeError"
  by (cases ks; cases "tl ks") auto

lemma compute_outer_array:
  assumes "2 \<le> L"
  shows "compute_outer assign [0..<L] (IntArray [0..<L], func) = Inl TypeError"
proof -
  from assms have "[0..<L] = 0 # [1..<L]" by (simp add: upt_conv_Cons)
  then have "compute_outer assign [0..<L] (IntArray [0..<L], func)
      = and_then (py_range (plus_one (IntArray [0..<L])))
          (\<lambda>ms. and_then (compute_inner (assign 0) ms (IntArray [0..<L], func))
                  (\<lambda>state'. compute_outer assign [1..<L] state'))"
    by (metis compute_outer.simps(2))
  moreover from assms have "py_range (plus_one (IntArray [0..<L])) = Inl TypeError"
    by (simp add: py_range_array)
  ultimately show ?thesis by (simp add: and_then_def)
qed

lemma compute_raises_TypeError:
  assumes "2 \<le> fst (snd (Acos_shape self))"
  shows "SCFPotential_u_compute cyl_to_spher lpmn self funcTilde R z phi = Inl TypeError"
proof -
  obtain N L M where shape: "Acos_shape self = (N, L, M)" by (cases "Acos_shape self") auto
  obtain r theta phi' where sph: "cyl_to_spher R phi z = (r, theta, phi')"
    by (cases "cyl_to_spher R phi z") auto
  from assms shape have "2 \<le> L" by simp
  from compute_outer_array [OF this] shape sph show ?thesis
    by (simp add: SCFPotential_u_compute_def Let_def and_then_def)
qed

text \<open>With a single angular order, \<open>L = 1\<close>, the loops run once and the sum is the expansion.\<close>

lemma broadcast_singleton: "broadcast f xs [y] = Inr (map (\<lambda>x. f x y) xs)"
proof (cases "length xs = 1")
  case True
  then obtain x where "xs = [x]" by (cases xs) auto
  then show ?thesis by (simp add: broadcast_def)
next
  case False
  then show ?thesis by (simp add: broadcast_def)
qed

lemma map2_same: "map2 f (map g xs) (map h xs) = map (\<lambda>x. f (g x) (h x)) xs"
  by (induction xs) auto

lemma broadcast_same: "broadcast f (map g xs) (map h xs) = Inr (map (\<lambda>x. f (g x) (h x)) xs)"
  by (simp add: broadcast_def map2_same)

lemma and_then_Inr: "and_then (Inr v) k = k v"
  by (simp add: and_then_def)

lemma broadcast_columns:
  "broadcast f (map g [0..<N]) (map h [0..<N]) = Inr (map (\<lambda>n. f (g n) (h n)) [0..<N])"
  by (rule broadcast_same)

lemma assigned_value:
  "map (\<lambda>n. (if length (map g [0..<N]) = 1 then hd (map g [0..<N]) else map g [0..<N] ! n) * p * q)
     [0..<N]
   = map (\<lambda>n. g n * p * q) [0..<N]"
proof (rule map_cong [OF refl])
  fix n assume "n \<in> set [0..<N]"
  then have n: "n < N" by simp
  then have nth: "map g [0..<N] ! n = g n" by simp
  have "(if length (map g [0..<N]) = 1 then hd (map g [0..<N]) else map g [0..<N] ! n)
          = map g [0..<N] ! n"
  proof (cases "length (map g [0..<N]) = 1")
    case True
    with n have "n = 0" by simp
    moreover from True have "hd (map g [0..<N]) = map g [0..<N] ! 0"
      by (intro hd_conv_nth) auto
    ultimately show ?thesis by (simp only: True if_True refl)
  next
    case False
    then show ?thesis by (simp only: if_False)
  qed
  with nth show "(if length (map g [0..<N]) = 1 then hd (map g [0..<N]) else map g [0..<N] ! n) * p * q
      = g n * p * q"
    by (simp only:)
qed

lemma compute_assign_single:
  assumes "Acos_shape self = (N, 1, M)" and "0 < M"
  shows "compute_assign self func_tilde PP [c] [s] 0 0 func
    = Inr (func((0, 0) :=
        map (\<lambda>n. func_tilde n 0 * (u_Acos self n 0 0 * c + u_Asin self n 0 0 * s)
                 * PP 0 0 * u_NN self 0 0) [0..<N]))"
proof -
  have s1: "column (N, 1, M) (u_Acos self) 0 0 = Inr (map (\<lambda>n. u_Acos self n 0 0) [0..<N])"
    using assms(2) by (simp add: column_def)
  have s2: "broadcast (*) (map (\<lambda>n. u_Acos self n 0 0) [0..<N]) [c]
              = Inr (map (\<lambda>n. u_Acos self n 0 0 * c) [0..<N])"
    by (simp add: broadcast_singleton o_def)
  have s3: "column (N, 1, M) (u_Asin self) 0 0 = Inr (map (\<lambda>n. u_Asin self n 0 0) [0..<N])"
    using assms(2) by (simp add: column_def)
  have s4: "broadcast (*) (map (\<lambda>n. u_Asin self n 0 0) [0..<N]) [s]
              = Inr (map (\<lambda>n. u_Asin self n 0 0 * s) [0..<N])"
    by (simp add: broadcast_singleton o_def)
  have s5: "broadcast (+) (map (\<lambda>n. u_Acos self n 0 0 * c) [0..<N])
                (map (\<lambda>n. u_Asin self n 0 0 * s) [0..<N])
              = Inr (map (\<lambda>n. u_Acos self n 0 0 * c + u_Asin self n 0 0 * s) [0..<N])"
    by (rule broadcast_columns)
  have s6: "broadcast (*) (map (\<lambda>n. func_tilde n 0) [0..<N])
                (map (\<lambda>n. u_Acos self n 0 0 * c + u_Asin self n 0 0 * s) [0..<N])
              = Inr (map (\<lambda>n. func_tilde n 0 * (u_Acos self n 0 0 * c + u_Asin self n 0 0 * s))
                      [0..<N])"
    by (rule broadcast_columns)
  have len: "length (map (\<lambda>n. func_tilde n 0 * (u_Acos self n 0 0 * c + u_Asin self n 0 0 * s))
                      [0..<N]) = N"
    by simp
  have "compute_assign self func_tilde PP [c] [s] 0 0 func
      = Inr (func((0, 0) :=
          map (\<lambda>n. (if length (map (\<lambda>n. func_tilde n 0
                                   * (u_Acos self n 0 0 * c + u_Asin self n 0 0 * s)) [0..<N]) = 1
                      then hd (map (\<lambda>n. func_tilde n 0
                                   * (u_Acos self n 0 0 * c + u_Asin self n 0 0 * s)) [0..<N])
                      else map (\<lambda>n. func_tilde n 0
                                   * (u_Acos self n 0 0 * c + u_Asin self n 0 0 * s)) [0..<N] ! n)
                     * PP 0 0 * u_NN self 0 0) [0..<N]))"
    unfolding compute_assign_def assms(1) prod.case s1 s2 s3 s4 s5 s6 and_then_Inr len
    by simp
  then show ?thesis by (simp only: assigned_value)
qed

lemma compute_single_order:
  assumes "Acos_shape self = (N, 1, M)" and "0 < M"
    and "cyl_to_spher R phi0 z = (r, theta, phi)"
  shows "SCFPotential_u_compute cyl_to_spher lpmn self funcTilde R z phi0
    = Inr ((\<lambda>lm. replicate N 0)((0, 0) :=
        map (\<lambda>n. funcTilde self r (SCFPotential_u_C (SCFPotential_u_calculateXi self r) 1 N) N 1 n 0
                 * (u_Acos self n 0 0 * cos (0 * phi) + u_Asin self n 0 0 * sin (0 * phi))
                 * lpmn 1 1 (cos theta) 0 0 * u_NN self 0 0) [0..<N]))"
proof -
  have "compute_outer assign [0..<1] (IntArray [0..<1], func)
          = and_then (assign 0 0 func) (\<lambda>func'. Inr (PyInt 0, func'))" for assign func
    by (simp add: and_then_def split: sum.splits)
  with assms(1,3) compute_assign_single [OF assms(1,2)] show ?thesis
    by (simp add: SCFPotential_u_compute_def Let_def and_then_def)
qed

lemma evaluate_single_order:
  assumes "Acos_shape self = (N, 1, M)" and "0 < M"
    and "cyl_to_spher R phi0 z = (r, theta, phi)"
  shows "SCFPotential_u_evaluate cyl_to_spher lpmn self R z phi0 t'
    = Inr (expansion_sum N 1
        (SCFPotential_u_phiTilde self r (SCFPotential_u_C (SCFPotential_u_calculateXi self r) 1 N) N 1)
        (lpmn 1 1 (cos theta)) (u_NN self) (u_Acos self) (u_Asin self) phi)"
  using assms(1)
    compute_single_order [where cyl_to_spher = cyl_to_spher and R = R and z = z
      and ?phi0.0 = phi0 and lpmn = lpmn and funcTilde = SCFPotential_u_phiTilde, OF assms]
  by (simp add: SCFPotential_u_evaluate_def and_then_def sum_func_def expansion_sum_def
      mult_ac)

text \<open>
  C2. The claim: for coefficient arrays of shape \<open>N \<times> L \<times> L\<close> and every \<open>L \<ge> 1\<close>, the
  potential and the density are the sum over \<open>n < N\<close>, \<open>l < L\<close>, \<open>m \<le> l\<close> of the
  expansion's terms. In \<open>_compute\<close> the inner loop is \<open>for m in range(m + 1)\<close> with \<open>m\<close> the
  array \<open>nu.arange(0, L)\<close>: as soon as \<open>L \<ge> 2\<close> the call of \<open>range\<close> raises \<open>TypeError\<close>
  (\<open>compute_raises_TypeError\<close>). So do \<open>_evaluate\<close> and \<open>_dens\<close> of the potential built with
  the constructor's default \<open>10 \<times> 10 \<times> 10\<close> coefficients, and of one with \<open>N = 1\<close>,
  \<open>L = 2\<close>, at every point. The sum is returned for \<open>L = 1\<close> only
  (\<open>evaluate_single_order\<close>).
\<close>

theorem evaluate_raises_for_more_than_one_angular_order:
  "SCFPotential_u_evaluate cyl_to_spher lpmn SCFPotential_default R z phi t' = Inl TypeError
   \<and> SCFPotential_u_dens cyl_to_spher lpmn SCFPotential_default R z phi t' = Inl TypeError
   \<and> SCFPotential_u_evaluate cyl_to_spher lpmn
        (SCFPotential_init (1, 2, 2) (\<lambda>n l m. 1) (\<lambda>n l m. 1) 1) R z phi t' = Inl TypeError"
  by (simp add: SCFPotential_u_evaluate_def SCFPotential_u_dens_def compute_raises_TypeError
      SCFPotential_default_def SCFPotential_init_def and_then_def)

section \<open>The radius of a circular orbit\<close>























section \<open>Resonances\<close>




















end
